theory Spec2Isabelle
  imports Main "HOL-Library.Word"
begin

section \<open>Data model of the contract DAOReputationPortabilityFHE\<close>

text \<open>
  Solidity value types. A \<open>uint256\<close> is a natural number; Solidity 0.8 checks every
  addition and reverts with a panic when the result leaves the type, which the model
  writes out at each \<open>+\<close> and \<open>++\<close> of the source. Addresses and 32-byte values are
  words. An \<open>euint32\<close> is a wrapped \<open>bytes32\<close> handle; the handle 0 is the
  uninitialised one.
\<close>

type_synonym address = "160 word"
type_synonym uint256 = nat
type_synonym bytes32 = "256 word"
type_synonym euint32 = bytes32
type_synonym bytes = "8 word list"

definition MAX_UINT256 :: nat where
  "MAX_UINT256 = 2 ^ 256 - 1"

record ReputationBatch =
  batchId :: uint256
  isOpen :: bool
  reputationSum :: uint256
  submissionCount :: uint256

record ReputationSubmission =
  encryptedReputation :: euint32
  provider :: address
  sub_batchId :: uint256

record DecryptionContext =
  ctx_batchId :: uint256
  stateHash :: bytes32
  processed :: bool

text \<open>
  The storage of the contract. A Solidity mapping is a total function: a key that was
  never written reads as the all-zero value.
\<close>

record state =
  owner :: address
  isProvider :: "address \<Rightarrow> bool"
  lastSubmissionTime :: "address \<Rightarrow> uint256"
  lastDecryptionRequestTime :: "address \<Rightarrow> uint256"
  cooldownSeconds :: uint256
  paused :: bool
  batches :: "uint256 \<Rightarrow> ReputationBatch"
  currentBatchId :: uint256
  submissions :: "ReputationSubmission list"
  decryptionContexts :: "uint256 \<Rightarrow> DecryptionContext"

definition zero_batch :: ReputationBatch where
  "zero_batch = \<lparr>batchId = 0, isOpen = False, reputationSum = 0, submissionCount = 0\<rparr>"

definition zero_context :: DecryptionContext where
  "zero_context = \<lparr>ctx_batchId = 0, stateHash = 0, processed = False\<rparr>"

datatype event =
    OwnershipTransferred address address
  | ProviderAdded address
  | ProviderRemoved address
  | CooldownSet uint256
  | Paused address
  | Unpaused address
  | BatchOpened uint256
  | BatchClosed uint256
  | ReputationSubmitted address uint256 uint256
  | DecryptionRequested uint256 uint256
  | DecryptionCompleted uint256 uint256 uint256 uint256

text \<open>
  The custom errors the contract declares, followed by the three ways the language
  itself reverts: \<open>revert("...")\<close> and \<open>require(_, "...")\<close> with a message, the
  arithmetic panic of a checked operation, and a failed \<open>abi.decode\<close>.
\<close>

datatype error =
    NotOwner
  | NotProvider
  | PausedState
  | CooldownActive
  | BatchNotOpen
  | InvalidBatch
  | ReplayAttempt
  | StateMismatch
  | InvalidProof
  | AlreadyInitialized
  | NotInitialized
  | Revert string
  | Panic
  | AbiDecodeError

text \<open>The transaction context: \<open>msg.sender\<close> and \<open>block.timestamp\<close>.\<close>

record env =
  sender :: address
  timestamp :: uint256

text \<open>
  The FHE library (\<open>@fhevm/solidity\<close>) and \<open>keccak256\<close> are not part of the
  repository; the contract's functions take them as a parameter. \<open>keccak_encode cts a\<close>
  stands for \<open>keccak256(abi.encode(cts, a))\<close>.

  Modelled from the spec: \<open>FHE.checkSignatures\<close> is the external proof verifier of
  section 4.6 step 3, a pass/fail gate; a failing check is the InvalidProof error of the
  spec's taxonomy.
\<close>

record fhevm =
  fhe_add :: "euint32 \<Rightarrow> euint32 \<Rightarrow> euint32"
  fhe_mul :: "euint32 \<Rightarrow> euint32 \<Rightarrow> euint32"
  fhe_inv :: "euint32 \<Rightarrow> euint32"
  fhe_asEuint32 :: "uint256 \<Rightarrow> euint32"
  fhe_checkSignatures :: "uint256 \<Rightarrow> bytes \<Rightarrow> bytes \<Rightarrow> bool"
  keccak_encode :: "bytes32 list \<Rightarrow> address \<Rightarrow> bytes32"
  this :: address

definition isInitialized :: "euint32 \<Rightarrow> bool" where
  "isInitialized x = (x \<noteq> 0)"

definition toBytes32 :: "euint32 \<Rightarrow> bytes32" where
  "toBytes32 x = x"

section \<open>Modifiers\<close>

text \<open>A modifier either reverts with an error or lets the body run (\<open>None\<close>).\<close>

definition onlyOwner :: "state \<Rightarrow> env \<Rightarrow> error option" where
  "onlyOwner s e = (if sender e \<noteq> owner s then Some NotOwner else None)"

definition onlyProvider :: "state \<Rightarrow> env \<Rightarrow> error option" where
  "onlyProvider s e = (if \<not> isProvider s (sender e) then Some NotProvider else None)"

definition whenNotPaused :: "state \<Rightarrow> error option" where
  "whenNotPaused s = (if paused s then Some PausedState else None)"

definition checkSubmissionCooldown :: "state \<Rightarrow> env \<Rightarrow> address \<Rightarrow> error option" where
  "checkSubmissionCooldown s e p =
     (if lastSubmissionTime s p + cooldownSeconds s > MAX_UINT256 then Some Panic
      else if timestamp e < lastSubmissionTime s p + cooldownSeconds s then Some CooldownActive
      else None)"

definition checkDecryptionCooldown :: "state \<Rightarrow> env \<Rightarrow> address \<Rightarrow> error option" where
  "checkDecryptionCooldown s e p =
     (if lastDecryptionRequestTime s p + cooldownSeconds s > MAX_UINT256 then Some Panic
      else if timestamp e < lastDecryptionRequestTime s p + cooldownSeconds s then Some CooldownActive
      else None)"

section \<open>Constructor and administration\<close>

type_synonym result = "error + (event list \<times> state)"

definition constructor :: "env \<Rightarrow> event list \<times> state" where
  "constructor e =
     ([ProviderAdded (sender e)],
      \<lparr>owner = sender e,
       isProvider = (\<lambda>_. False)(sender e := True),
       lastSubmissionTime = (\<lambda>_. 0),
       lastDecryptionRequestTime = (\<lambda>_. 0),
       cooldownSeconds = 60,
       paused = False,
       batches = (\<lambda>_. zero_batch),
       currentBatchId = 1,
       submissions = [],
       decryptionContexts = (\<lambda>_. zero_context)\<rparr>)"

definition transferOwnership :: "env \<Rightarrow> state \<Rightarrow> address \<Rightarrow> result" where
  "transferOwnership e s newOwner =
     (case onlyOwner s e of Some err \<Rightarrow> Inl err | None \<Rightarrow>
      if newOwner = 0 then Inl (Revert ''New owner is the zero address'')
      else Inr ([OwnershipTransferred (owner s) newOwner], s\<lparr>owner := newOwner\<rparr>))"

definition addProvider :: "env \<Rightarrow> state \<Rightarrow> address \<Rightarrow> result" where
  "addProvider e s p =
     (case onlyOwner s e of Some err \<Rightarrow> Inl err | None \<Rightarrow>
      if \<not> isProvider s p
      then Inr ([ProviderAdded p], s\<lparr>isProvider := (isProvider s)(p := True)\<rparr>)
      else Inr ([], s))"

definition removeProvider :: "env \<Rightarrow> state \<Rightarrow> address \<Rightarrow> result" where
  "removeProvider e s p =
     (case onlyOwner s e of Some err \<Rightarrow> Inl err | None \<Rightarrow>
      if isProvider s p
      then Inr ([ProviderRemoved p], s\<lparr>isProvider := (isProvider s)(p := False)\<rparr>)
      else Inr ([], s))"

definition setCooldownSeconds :: "env \<Rightarrow> state \<Rightarrow> uint256 \<Rightarrow> result" where
  "setCooldownSeconds e s newCooldownSeconds =
     (case onlyOwner s e of Some err \<Rightarrow> Inl err | None \<Rightarrow>
      Inr ([CooldownSet newCooldownSeconds], s\<lparr>cooldownSeconds := newCooldownSeconds\<rparr>))"

definition pause :: "env \<Rightarrow> state \<Rightarrow> result" where
  "pause e s =
     (case onlyOwner s e of Some err \<Rightarrow> Inl err | None \<Rightarrow>
      case whenNotPaused s of Some err \<Rightarrow> Inl err | None \<Rightarrow>
      Inr ([Paused (sender e)], s\<lparr>paused := True\<rparr>))"

definition unpause :: "env \<Rightarrow> state \<Rightarrow> result" where
  "unpause e s =
     (case onlyOwner s e of Some err \<Rightarrow> Inl err | None \<Rightarrow>
      if \<not> paused s then Inl (Revert ''Contract not paused'')
      else Inr ([Unpaused (sender e)], s\<lparr>paused := False\<rparr>))"

section \<open>Batch lifecycle and submission ledger\<close>

definition openBatch :: "env \<Rightarrow> state \<Rightarrow> result" where
  "openBatch e s =
     (case onlyOwner s e of Some err \<Rightarrow> Inl err | None \<Rightarrow>
      case whenNotPaused s of Some err \<Rightarrow> Inl err | None \<Rightarrow>
      Inr ([BatchOpened (currentBatchId s)],
           s\<lparr>batches := (batches s)(currentBatchId s :=
                \<lparr>batchId = currentBatchId s, isOpen = True,
                 reputationSum = 0, submissionCount = 0\<rparr>)\<rparr>))"

definition closeBatch :: "env \<Rightarrow> state \<Rightarrow> result" where
  "closeBatch e s =
     (case onlyOwner s e of Some err \<Rightarrow> Inl err | None \<Rightarrow>
      case whenNotPaused s of Some err \<Rightarrow> Inl err | None \<Rightarrow>
      if \<not> isOpen (batches s (currentBatchId s)) then Inl InvalidBatch
      else if currentBatchId s + 1 > MAX_UINT256 then Inl Panic
      else Inr ([BatchClosed (currentBatchId s)],
                s\<lparr>batches := (batches s)(currentBatchId s :=
                     (batches s (currentBatchId s))\<lparr>isOpen := False\<rparr>),
                  currentBatchId := currentBatchId s + 1\<rparr>))"

definition submitReputation :: "env \<Rightarrow> state \<Rightarrow> euint32 \<Rightarrow> result" where
  "submitReputation e s encRep =
     (case onlyProvider s e of Some err \<Rightarrow> Inl err | None \<Rightarrow>
      case whenNotPaused s of Some err \<Rightarrow> Inl err | None \<Rightarrow>
      case checkSubmissionCooldown s e (sender e) of Some err \<Rightarrow> Inl err | None \<Rightarrow>
      if \<not> isOpen (batches s (currentBatchId s)) then Inl BatchNotOpen
      else if \<not> isInitialized encRep then Inl NotInitialized
      else if submissionCount (batches s (currentBatchId s)) + 1 > MAX_UINT256 then Inl Panic
      else
        let submissionIndex = length (submissions s) in
        Inr ([ReputationSubmitted (sender e) (currentBatchId s) submissionIndex],
             s\<lparr>submissions := submissions s @
                  [\<lparr>encryptedReputation = encRep, provider = sender e,
                    sub_batchId = currentBatchId s\<rparr>],
               batches := (batches s)(currentBatchId s :=
                  (batches s (currentBatchId s))
                    \<lparr>submissionCount := submissionCount (batches s (currentBatchId s)) + 1\<rparr>),
               lastSubmissionTime := (lastSubmissionTime s)(sender e := timestamp e)\<rparr>))"

section \<open>Aggregation, disclosure request and oracle callback\<close>

text \<open>
  The loop of \<open>requestBatchDecryption\<close> over the ledger, in index order. The
  accumulator is the pair of the locals \<open>encryptedTotalReputation\<close> and
  \<open>initialized\<close>.
\<close>

fun request_loop ::
  "fhevm \<Rightarrow> uint256 \<Rightarrow> ReputationSubmission list \<Rightarrow> euint32 \<times> bool \<Rightarrow> euint32 \<times> bool" where
  "request_loop fhe b [] acc = acc"
| "request_loop fhe b (x # xs) (encryptedTotalReputation, initialized) =
     (if sub_batchId x = b
      then (if \<not> initialized
            then request_loop fhe b xs (encryptedReputation x, True)
            else request_loop fhe b xs (fhe_add fhe encryptedTotalReputation (encryptedReputation x), True))
      else request_loop fhe b xs (encryptedTotalReputation, initialized))"

text \<open>The loop of \<open>myCallback\<close>, written a second time in the source.\<close>

fun callback_loop ::
  "fhevm \<Rightarrow> uint256 \<Rightarrow> ReputationSubmission list \<Rightarrow> euint32 \<times> bool \<Rightarrow> euint32 \<times> bool" where
  "callback_loop fhe b [] acc = acc"
| "callback_loop fhe b (x # xs) (encryptedTotalReputation, initialized) =
     (if sub_batchId x = b
      then (if \<not> initialized
            then callback_loop fhe b xs (encryptedReputation x, True)
            else callback_loop fhe b xs (fhe_add fhe encryptedTotalReputation (encryptedReputation x), True))
      else callback_loop fhe b xs (encryptedTotalReputation, initialized))"

definition hashCiphertexts :: "fhevm \<Rightarrow> bytes32 list \<Rightarrow> bytes32" where
  "hashCiphertexts fhe cts = keccak_encode fhe cts (this fhe)"

text \<open>
  The aggregation part of \<open>requestBatchDecryption\<close> (from the loop to the state hash):
  the two ciphertext handles \<open>cts\<close> and their digest, or the revert of an
  uninitialised accumulator.
\<close>

definition request_aggregate :: "fhevm \<Rightarrow> state \<Rightarrow> uint256 \<Rightarrow> error + (bytes32 list \<times> bytes32)" where
  "request_aggregate fhe s b =
     (let (encryptedTotalReputation, initialized) = request_loop fhe b (submissions s) (0, False) in
      if \<not> initialized then Inl (Revert ''No submissions found for batch'')
      else
        let encryptedAverageReputation =
              fhe_mul fhe encryptedTotalReputation
                (fhe_inv fhe (fhe_asEuint32 fhe (submissionCount (batches s b))));
            cts = [toBytes32 encryptedTotalReputation, toBytes32 encryptedAverageReputation]
        in Inr (cts, hashCiphertexts fhe cts))"

text \<open>The aggregation part of \<open>myCallback\<close>; it has no check of \<open>initialized\<close>.\<close>

definition callback_aggregate :: "fhevm \<Rightarrow> state \<Rightarrow> uint256 \<Rightarrow> bytes32 list \<times> bytes32" where
  "callback_aggregate fhe s b =
     (let (encryptedTotalReputation, initialized) = callback_loop fhe b (submissions s) (0, False);
          encryptedAverageReputation =
              fhe_mul fhe encryptedTotalReputation
                (fhe_inv fhe (fhe_asEuint32 fhe (submissionCount (batches s b))));
          cts = [toBytes32 encryptedTotalReputation, toBytes32 encryptedAverageReputation]
      in (cts, hashCiphertexts fhe cts))"

text \<open>
  \<open>requestId\<close> is the value \<open>FHE.requestDecryption\<close> returns; the library is outside
  the repository, so the id is an input of the model.
\<close>

definition requestBatchDecryption :: "fhevm \<Rightarrow> env \<Rightarrow> state \<Rightarrow> uint256 \<Rightarrow> uint256 \<Rightarrow> result" where
  "requestBatchDecryption fhe e s b requestId =
     (case onlyProvider s e of Some err \<Rightarrow> Inl err | None \<Rightarrow>
      case whenNotPaused s of Some err \<Rightarrow> Inl err | None \<Rightarrow>
      case checkDecryptionCooldown s e (sender e) of Some err \<Rightarrow> Inl err | None \<Rightarrow>
      if b \<ge> currentBatchId s \<or> \<not> isOpen (batches s b) then Inl InvalidBatch
      else if submissionCount (batches s b) = 0 then Inl (Revert ''Batch has no submissions'')
      else
        case request_aggregate fhe s b of Inl err \<Rightarrow> Inl err | Inr (cts, hash) \<Rightarrow>
        Inr ([DecryptionRequested requestId b],
             s\<lparr>decryptionContexts := (decryptionContexts s)(requestId :=
                  \<lparr>ctx_batchId = b, stateHash = hash, processed = False\<rparr>),
               lastDecryptionRequestTime :=
                  (lastDecryptionRequestTime s)(sender e := timestamp e)\<rparr>))"

text \<open>
  \<open>abi.decode(_, (uint32))\<close> reads the first 32 bytes as a big-endian number and
  reverts when fewer bytes are there or the number is no \<open>uint32\<close>.
\<close>

definition be_nat :: "bytes \<Rightarrow> nat" where
  "be_nat bs = foldl (\<lambda>acc b. acc * 256 + unat b) 0 bs"

definition abi_decode_uint32 :: "bytes \<Rightarrow> nat option" where
  "abi_decode_uint32 bs =
     (if length bs < 32 then None
      else let v = be_nat (take 32 bs) in if v < 2 ^ 32 then Some v else None)"

definition myCallback :: "fhevm \<Rightarrow> env \<Rightarrow> state \<Rightarrow> uint256 \<Rightarrow> bytes \<Rightarrow> bytes \<Rightarrow> result" where
  "myCallback fhe e s requestId cleartexts proof =
     (if processed (decryptionContexts s requestId) then Inl ReplayAttempt
      else
        let (cts, currentHash) = callback_aggregate fhe s (ctx_batchId (decryptionContexts s requestId)) in
        if currentHash \<noteq> stateHash (decryptionContexts s requestId) then Inl StateMismatch
        else if \<not> fhe_checkSignatures fhe requestId cleartexts proof then Inl InvalidProof
        else
          case abi_decode_uint32 cleartexts of None \<Rightarrow> Inl AbiDecodeError | Some totalReputation \<Rightarrow>
          case abi_decode_uint32 (drop 32 cleartexts) of None \<Rightarrow> Inl AbiDecodeError
          | Some averageReputation \<Rightarrow>
          Inr ([DecryptionCompleted requestId (ctx_batchId (decryptionContexts s requestId))
                  totalReputation averageReputation],
               s\<lparr>decryptionContexts := (decryptionContexts s)(requestId :=
                    (decryptionContexts s requestId)\<lparr>processed := True\<rparr>)\<rparr>))"

section \<open>Transactions and reachable states\<close>

datatype call =
    TransferOwnership address
  | AddProvider address
  | RemoveProvider address
  | SetCooldownSeconds uint256
  | Pause
  | Unpause
  | OpenBatch
  | CloseBatch
  | SubmitReputation euint32
  | RequestBatchDecryption uint256 uint256
  | MyCallback uint256 bytes bytes

fun exec :: "fhevm \<Rightarrow> env \<Rightarrow> call \<Rightarrow> state \<Rightarrow> result" where
  "exec fhe e (TransferOwnership a) s = transferOwnership e s a"
| "exec fhe e (AddProvider a) s = addProvider e s a"
| "exec fhe e (RemoveProvider a) s = removeProvider e s a"
| "exec fhe e (SetCooldownSeconds n) s = setCooldownSeconds e s n"
| "exec fhe e Pause s = pause e s"
| "exec fhe e Unpause s = unpause e s"
| "exec fhe e OpenBatch s = openBatch e s"
| "exec fhe e CloseBatch s = closeBatch e s"
| "exec fhe e (SubmitReputation c) s = submitReputation e s c"
| "exec fhe e (RequestBatchDecryption b rid) s = requestBatchDecryption fhe e s b rid"
| "exec fhe e (MyCallback rid cleartexts prf) s = myCallback fhe e s rid cleartexts prf"

text \<open>A transaction that reverts leaves the storage as it was and emits nothing.\<close>

definition after :: "fhevm \<Rightarrow> env \<times> call \<Rightarrow> state \<Rightarrow> state" where
  "after fhe tx s = (case exec fhe (fst tx) (snd tx) s of Inl err \<Rightarrow> s | Inr (evs, s') \<Rightarrow> s')"

definition emitted :: "fhevm \<Rightarrow> env \<times> call \<Rightarrow> state \<Rightarrow> event list" where
  "emitted fhe tx s = (case exec fhe (fst tx) (snd tx) s of Inl err \<Rightarrow> [] | Inr (evs, s') \<Rightarrow> evs)"

fun run :: "fhevm \<Rightarrow> state \<Rightarrow> (env \<times> call) list \<Rightarrow> state" where
  "run fhe s [] = s"
| "run fhe s (tx # txs) = run fhe (after fhe tx s) txs"

inductive reachable :: "fhevm \<Rightarrow> state \<Rightarrow> bool" for fhe :: fhevm where
  reachable_init: "reachable fhe (snd (constructor e))"
| reachable_step: "reachable fhe s \<Longrightarrow> exec fhe e c s = Inr (evs, s') \<Longrightarrow> reachable fhe s'"

section \<open>Notions used by the properties\<close>

text \<open>The number of ledger entries that reference batch \<open>b\<close>.\<close>

definition ledger_count :: "state \<Rightarrow> uint256 \<Rightarrow> nat" where
  "ledger_count s b = length (filter (\<lambda>x. sub_batchId x = b) (submissions s))"


text \<open>
  A transaction is a successful \<open>openBatch\<close> when it calls \<open>openBatch\<close> and does not
  revert; \<open>no_successful_open\<close> says that a sequence of transactions, run from \<open>s\<close>,
  contains none.
\<close>

fun no_successful_open :: "fhevm \<Rightarrow> state \<Rightarrow> (env \<times> call) list \<Rightarrow> bool" where
  "no_successful_open fhe s [] = True"
| "no_successful_open fhe s (tx # txs) =
     (\<not> (snd tx = OpenBatch \<and> \<not> isl (exec fhe (fst tx) (snd tx) s))
      \<and> no_successful_open fhe (after fhe tx s) txs)"

text \<open>
  \<open>recreates rid tx\<close>: the transaction is a disclosure request to which the oracle
  library hands the id \<open>rid\<close>, so that on success it stores a new context under it.
\<close>

fun recreates :: "uint256 \<Rightarrow> env \<times> call \<Rightarrow> bool" where
  "recreates rid (e, RequestBatchDecryption b r) = (r = rid)"
| "recreates rid (e, c) = False"

text \<open>
  The number of transactions of a sequence at which the \<open>processed\<close> flag of the context
  \<open>rid\<close> goes from false to true.
\<close>

fun flips :: "fhevm \<Rightarrow> uint256 \<Rightarrow> state \<Rightarrow> (env \<times> call) list \<Rightarrow> nat" where
  "flips fhe rid s [] = 0"
| "flips fhe rid s (tx # txs) =
     (if \<not> processed (decryptionContexts s rid)
         \<and> processed (decryptionContexts (after fhe tx s) rid) then 1 else 0)
     + flips fhe rid (after fhe tx s) txs"

section \<open>A deterministic stand-in for the FHE library and test scenarios\<close>

text \<open>
  The stand-in computes on the handles themselves with word arithmetic; the digest is a
  polynomial over the handles and the contract address. A proof is accepted when it is
  the single byte 1. None of the general theorems depends on it: it instantiates them
  at concrete inputs.
\<close>

definition fake_fhevm :: fhevm where
  "fake_fhevm =
     \<lparr>fhe_add = (\<lambda>a b. a + b),
      fhe_mul = (\<lambda>a b. a * b),
      fhe_inv = (\<lambda>a. a),
      fhe_asEuint32 = (\<lambda>n. of_nat n),
      fhe_checkSignatures = (\<lambda>rid cleartexts prf. prf = [1]),
      keccak_encode = (\<lambda>cts a. foldl (\<lambda>h c. 31 * h + c) 17 cts + ucast a),
      this = 99\<rparr>"

text \<open>The deployer and owner is address 1; \<open>at t\<close> is a transaction of the owner at time \<open>t\<close>.\<close>

definition at :: "uint256 \<Rightarrow> env" where
  "at t = \<lparr>sender = 1, timestamp = t\<rparr>"

definition deployed :: state where
  "deployed = snd (constructor (at 0))"

text \<open>Batch 1 opened, one submission (handle 5) by the owner at time 100.\<close>

definition one_submission :: state where
  "one_submission = run fake_fhevm deployed [(at 100, OpenBatch), (at 100, SubmitReputation 5)]"

text \<open>
  A storage in which a disclosure request for batch 1 is pending under request id 7, as
  \<open>requestBatchDecryption\<close> stores it: the context holds the digest of the two handles
  of the batch's one submission.
\<close>

definition pending :: state where
  "pending = deployed
     \<lparr>batches := (\<lambda>_. zero_batch)(1 :=
          \<lparr>batchId = 1, isOpen = True, reputationSum = 0, submissionCount = 1\<rparr>),
      submissions := [\<lparr>encryptedReputation = 5, provider = 1, sub_batchId = 1\<rparr>],
      decryptionContexts := (\<lambda>_. zero_context)(7 :=
          \<lparr>ctx_batchId = 1, stateHash = hashCiphertexts fake_fhevm [5, 5], processed = False\<rparr>)\<rparr>"

text \<open>The same storage after the callback has marked the context processed.\<close>

definition completed :: state where
  "completed = pending
     \<lparr>decryptionContexts := (decryptionContexts pending)(7 :=
          (decryptionContexts pending 7)\<lparr>processed := True\<rparr>)\<rparr>"

text \<open>A cleartext payload of two 32-byte slots holding 5 and 5.\<close>

definition cleartexts_5_5 :: bytes where
  "cleartexts_5_5 = replicate 31 0 @ [5] @ replicate 31 0 @ [5]"

text \<open>
  The state after the owner has closed batch 1 at time 200, and a sequence of later
  transactions without a successful \<open>openBatch\<close>: a cooldown change, a submission
  (which reverts) and an \<open>openBatch\<close> by a stranger (which reverts).
\<close>

definition closed_one :: state where
  "closed_one = after fake_fhevm (at 200, CloseBatch) one_submission"

definition intermission :: "(env \<times> call) list" where
  "intermission =
     [(at 210, SetCooldownSeconds 10),
      (at 220, SubmitReputation 6),
      (\<lparr>sender = 2, timestamp = 230\<rparr>, OpenBatch)]"



section \<open>Basic facts\<close>

lemmas modifier_defs = onlyOwner_def onlyProvider_def whenNotPaused_def
  checkSubmissionCooldown_def checkDecryptionCooldown_def

lemmas op_defs = transferOwnership_def addProvider_def removeProvider_def
  setCooldownSeconds_def pause_def unpause_def openBatch_def closeBatch_def
  submitReputation_def requestBatchDecryption_def myCallback_def

lemmas scenario_defs = deployed_def constructor_def at_def after_def zero_batch_def
  zero_context_def isInitialized_def MAX_UINT256_def

text \<open>
  In every reachable state at most the batch under \<open>currentBatchId\<close> is open:
  \<open>closeBatch\<close> closes it before it advances the pointer, and \<open>openBatch\<close> opens no
  other.
\<close>

lemma only_current_open:
  "reachable fhe s \<Longrightarrow> b \<noteq> currentBatchId s \<Longrightarrow> \<not> isOpen (batches s b)"
proof (induction arbitrary: b rule: reachable.induct)
  case (reachable_init e)
  show ?case by (simp add: constructor_def zero_batch_def)
next
  case (reachable_step s e c evs s')
  then show ?case
    by (cases c)
      (auto simp: op_defs modifier_defs Let_def
            split: if_splits option.splits sum.splits prod.splits)
qed

text \<open>Batch ids start at 1: batch 0 is never written and no ledger entry refers to it.\<close>

lemma batch_zero_untouched:
  "reachable fhe s \<Longrightarrow>
     1 \<le> currentBatchId s \<and> batches s 0 = zero_batch
     \<and> (\<forall>x\<in>set (submissions s). sub_batchId x \<noteq> 0)"
proof (induction rule: reachable.induct)
  case (reachable_init e)
  show ?case by (simp add: constructor_def)
next
  case (reachable_step s e c evs s')
  then show ?case
    by (cases c)
      (auto simp: op_defs modifier_defs Let_def
            split: if_splits option.splits sum.splits prod.splits)
qed

lemma reachable_after: "reachable fhe s \<Longrightarrow> reachable fhe (after fhe tx s)"
  by (cases "exec fhe (fst tx) (snd tx) s")
     (auto simp: after_def intro: reachable_step)

lemma reachable_run: "reachable fhe s \<Longrightarrow> reachable fhe (run fhe s txs)"
  by (induction txs arbitrary: s) (simp_all add: reachable_after)

lemma reachable_deployed: "reachable fhe deployed"
  unfolding deployed_def by (rule reachable_init)

lemma reachable_one_submission: "reachable fake_fhevm one_submission"
  unfolding one_submission_def by (rule reachable_run [OF reachable_deployed])

lemma one_submission_fields:
  "currentBatchId one_submission = 1"
  "isOpen (batches one_submission 1)"
  "submissionCount (batches one_submission 1) = 1"
  "ledger_count one_submission 1 = 1"
  "isProvider one_submission 1"
  "\<not> paused one_submission"
  "lastDecryptionRequestTime one_submission 1 = 0"
  "lastSubmissionTime one_submission 1 = 100"
  "cooldownSeconds one_submission = 60"
  by (simp_all add: one_submission_def ledger_count_def scenario_defs op_defs modifier_defs)

section \<open>Aggregation\<close>

text \<open>The loop of the request and the loop of the callback compute the same accumulator.\<close>

lemma request_loop_eq_callback_loop: "request_loop fhe b xs acc = callback_loop fhe b xs acc"
  by (induction fhe b xs acc rule: request_loop.induct) simp_all

text \<open>
  Once seeded, the loop adds the matching handles from the left; unseeded, it takes the
  first matching handle as the seed.
\<close>

lemma callback_loop_initialized:
  "callback_loop fhe b xs (t, True) =
     (foldl (fhe_add fhe) t (map encryptedReputation (filter (\<lambda>x. sub_batchId x = b) xs)), True)"
  by (induction xs arbitrary: t) simp_all

lemma callback_loop_seed:
  "callback_loop fhe b xs (t, False) =
     (case map encryptedReputation (filter (\<lambda>x. sub_batchId x = b) xs) of
        [] \<Rightarrow> (t, False)
      | c # cs \<Rightarrow> (foldl (fhe_add fhe) c cs, True))"
  by (induction xs) (simp_all add: callback_loop_initialized)

text \<open>
  The aggregation of the request in terms of the one of the callback: it reverts when no
  ledger entry matches and returns the callback's handles and digest otherwise. The same
  for the aggregate in the specification's words.
\<close>

lemma request_aggregate_cases:
  "request_aggregate fhe s b =
     (if ledger_count s b = 0 then Inl (Revert ''No submissions found for batch'')
      else Inr (callback_aggregate fhe s b))"
proof (cases "map encryptedReputation (filter (\<lambda>x. sub_batchId x = b) (submissions s))")
  case Nil
  then have "ledger_count s b = 0"
    by (simp add: ledger_count_def)
  moreover from Nil have "callback_loop fhe b (submissions s) (0, False) = (0, False)"
    by (simp add: callback_loop_seed)
  ultimately show ?thesis
    by (simp add: request_aggregate_def request_loop_eq_callback_loop)
next
  case (Cons c cs)
  then have "ledger_count s b \<noteq> 0"
    by (auto simp: ledger_count_def)
  moreover from Cons have
    "callback_loop fhe b (submissions s) (0, False) = (foldl (fhe_add fhe) c cs, True)"
    by (simp add: callback_loop_seed)
  ultimately show ?thesis
    by (simp add: request_aggregate_def callback_aggregate_def request_loop_eq_callback_loop
          Let_def)
qed







section \<open>Disclosure requests\<close>

text \<open>
  What the function does on an arbitrary storage, past its three modifiers: it succeeds
  exactly for an open batch strictly below the pointer with a nonzero counter and a ledger
  entry.
\<close>

lemma requestBatchDecryption_succeeds_iff:
  assumes "onlyProvider s e = None"
    and "whenNotPaused s = None"
    and "checkDecryptionCooldown s e (sender e) = None"
  shows "\<not> isl (requestBatchDecryption fhe e s b rid) \<longleftrightarrow>
     b < currentBatchId s \<and> isOpen (batches s b) \<and> submissionCount (batches s b) \<noteq> 0
     \<and> 0 < ledger_count s b"
  using assms
  by (auto simp: requestBatchDecryption_def request_aggregate_cases split: prod.splits)

text \<open>
  Claim C1 says that, past the gate checks, \<open>requestDisclosure(batchId)\<close> succeeds
  exactly when \<open>batchId\<close> is the currently tracked batch, that batch is open and has
  submissions. The guard of \<open>requestBatchDecryption\<close> rejects every
  \<open>batchId \<ge> currentBatchId\<close>, the current batch included, and every batch below the
  pointer is closed. So in every reachable state in which the caller is a provider, the
  contract is not paused and the decryption cooldown has elapsed, the request fails with
  InvalidBatch, whatever the batch id: the request never succeeds.
\<close>

theorem requestBatchDecryption_never_succeeds:
  assumes "reachable fhe s"
    and "onlyProvider s e = None"
    and "whenNotPaused s = None"
    and "checkDecryptionCooldown s e (sender e) = None"
  shows "requestBatchDecryption fhe e s b requestId = Inl InvalidBatch"
proof (cases "b \<ge> currentBatchId s")
  case True
  with assms show ?thesis by (simp add: requestBatchDecryption_def)
next
  case False
  then have "b \<noteq> currentBatchId s" by simp
  with assms(1) have "\<not> isOpen (batches s b)" by (rule only_current_open)
  with assms show ?thesis by (simp add: requestBatchDecryption_def)
qed

text \<open>
  The instance at the state the claim is about: batch 1 is the current batch, open, with
  one submission, and the owner (a provider) asks for its disclosure after the cooldown.
\<close>

theorem requestBatchDecryption_never_succeeds_witness:
  "reachable fake_fhevm one_submission
   \<and> onlyProvider one_submission (at 200) = None
   \<and> whenNotPaused one_submission = None
   \<and> checkDecryptionCooldown one_submission (at 200) (sender (at 200)) = None
   \<and> currentBatchId one_submission = 1
   \<and> isOpen (batches one_submission 1)
   \<and> submissionCount (batches one_submission 1) > 0
   \<and> requestBatchDecryption fake_fhevm (at 200) one_submission 1 7 = Inl InvalidBatch"
proof -
  have g: "onlyProvider one_submission (at 200) = None"
    "whenNotPaused one_submission = None"
    "checkDecryptionCooldown one_submission (at 200) (sender (at 200)) = None"
    by (simp_all add: modifier_defs one_submission_fields at_def MAX_UINT256_def)
  from requestBatchDecryption_never_succeeds [OF reachable_one_submission g]
  show ?thesis using g reachable_one_submission one_submission_fields by simp
qed

text \<open>
  Whatever the storage, a request passes only for a batch below the pointer, and a
  submission is appended to the batch under the pointer: a submission after a successful
  request never lands in the requested batch and leaves the callback's aggregate of that
  batch as it was.
\<close>

lemma request_then_submit_no_drift:
  assumes "requestBatchDecryption fhe e s b rid = Inr (evs, s1)"
    and "submitReputation e' s1 c = Inr (evs', s2)"
  shows "b < currentBatchId s1
    \<and> sub_batchId (last (submissions s2)) = currentBatchId s1
    \<and> ledger_count s2 b = ledger_count s1 b
    \<and> callback_aggregate fhe s2 b = callback_aggregate fhe s1 b"
proof -
  from assms(1) have lt: "b < currentBatchId s1"
    by (auto simp: requestBatchDecryption_def split: if_splits option.splits sum.splits prod.splits)
  from assms(2) have sub: "submissions s2 = submissions s1 @
      [\<lparr>encryptedReputation = c, provider = sender e', sub_batchId = currentBatchId s1\<rparr>]"
    and bat: "batches s2 = (batches s1)(currentBatchId s1 :=
                  (batches s1 (currentBatchId s1))
                    \<lparr>submissionCount := submissionCount (batches s1 (currentBatchId s1)) + 1\<rparr>)"
    by (auto simp: submitReputation_def Let_def split: if_splits option.splits)
  from lt sub have f: "filter (\<lambda>x. sub_batchId x = b) (submissions s2)
      = filter (\<lambda>x. sub_batchId x = b) (submissions s1)"
    by simp
  from lt bat have "batches s2 b = batches s1 b" by simp
  with f lt sub show ?thesis
    by (cases "callback_loop fhe b (submissions s1) (0, False)")
       (simp add: ledger_count_def callback_aggregate_def callback_loop_seed)
qed

section \<open>The submission counter\<close>

text \<open>What holds in every reachable state: the counter never exceeds the ledger.\<close>

lemma submissionCount_le_ledger_count:
  "reachable fhe s \<Longrightarrow> submissionCount (batches s b) \<le> ledger_count s b"
proof (induction arbitrary: b rule: reachable.induct)
  case (reachable_init e)
  show ?case by (simp add: constructor_def zero_batch_def)
next
  case (reachable_step s e c evs s')
  from reachable_step.IH [of b] reachable_step.hyps(2) show ?case
    by (cases c)
      (auto simp: op_defs modifier_defs ledger_count_def Let_def
            split: if_splits option.splits sum.splits prod.splits)
qed

text \<open>
  Claim C2 says that a batch's \<open>submissionCount\<close> equals the number of ledger entries
  of the batch and never decreases. \<open>openBatch\<close> has no guard against a batch that is
  already open: called again by the owner after one submission, it succeeds and writes a
  fresh record over batch 1, so the counter falls from 1 to 0 while the ledger still holds
  the entry.
\<close>

theorem reopen_resets_submissionCount:
  "submissionCount (batches one_submission 1) = 1
   \<and> ledger_count one_submission 1 = 1
   \<and> \<not> isl (exec fake_fhevm (at 110) OpenBatch one_submission)
   \<and> submissionCount (batches (after fake_fhevm (at 110, OpenBatch) one_submission) 1) = 0
   \<and> ledger_count (after fake_fhevm (at 110, OpenBatch) one_submission) 1 = 1"
  by (simp add: one_submission_def ledger_count_def scenario_defs op_defs modifier_defs)

section \<open>The oracle callback\<close>

lemma be_nat_zeros: "foldl (\<lambda>acc b. acc * 256 + unat b) 0 (replicate n (0 :: 8 word)) = 0"
  by (induction n) simp_all

lemma decode_5_5:
  "abi_decode_uint32 cleartexts_5_5 = Some 5"
  "abi_decode_uint32 (drop 32 cleartexts_5_5) = Some 5"
  by (simp_all add: abi_decode_uint32_def cleartexts_5_5_def be_nat_def be_nat_zeros)

lemma pending_callback:
  "myCallback fake_fhevm (at 500) pending 7 cleartexts_5_5 [1]
     = Inr ([DecryptionCompleted 7 1 5 5], completed)"
  by (simp add: myCallback_def decode_5_5 completed_def pending_def callback_aggregate_def
        hashCiphertexts_def toBytes32_def fake_fhevm_def scenario_defs)

subsection \<open>Unknown request ids\<close>

text \<open>
  In a reachable state the callback's aggregation for batch 0 finds no ledger entry: the
  accumulator stays the uninitialised handle and the count is 0.
\<close>

lemma callback_aggregate_batch_zero:
  assumes "reachable fhe s"
  shows "callback_aggregate fhe s 0 =
     ([0, fhe_mul fhe 0 (fhe_inv fhe (fhe_asEuint32 fhe 0))],
      hashCiphertexts fhe [0, fhe_mul fhe 0 (fhe_inv fhe (fhe_asEuint32 fhe 0))])"
proof -
  from batch_zero_untouched [OF assms]
  have z: "batches s 0 = zero_batch" and n: "\<forall>x\<in>set (submissions s). sub_batchId x \<noteq> 0"
    by simp_all
  from n have "filter (\<lambda>x. sub_batchId x = 0) (submissions s) = []"
    by (simp add: filter_empty_conv)
  then have "callback_loop fhe 0 (submissions s) (0, False) = (0, False)"
    by (simp add: callback_loop_seed)
  with z show ?thesis
    by (simp add: callback_aggregate_def zero_batch_def toBytes32_def Let_def)
qed

text \<open>
  Claim C3 as stated: a callback for a request id without a context fails as an
  unknown-request protocol error before any aggregation or digest comparison. The code
  has no such check. Right after deployment no context exists under id 7; the callback
  reads the all-zero entry, aggregates batch 0 and compares the digest 16436 of the two
  handles with the stored zero hash: the failure is the StateMismatch of the digest
  comparison.
\<close>

theorem unknown_request_reaches_digest_comparison:
  "decryptionContexts deployed 7 = zero_context
   \<and> callback_aggregate fake_fhevm deployed 0 = ([0, 0], 16436)
   \<and> myCallback fake_fhevm (at 500) deployed 7 cleartexts_5_5 [1] = Inl StateMismatch"
  by (simp add: myCallback_def callback_aggregate_def hashCiphertexts_def toBytes32_def
        fake_fhevm_def scenario_defs)

text \<open>
  Claim C3 as amended: in every reachable state, a callback for a request id whose
  context entry is the all-zero one (none was ever stored) is not told apart from a
  pending request; it recomputes the aggregate of batch 0 and, whenever the digest of that
  empty aggregate is not the zero hash, reverts with StateMismatch, leaving the storage
  unchanged and emitting nothing.
\<close>

theorem unknown_request_is_state_mismatch:
  assumes "reachable fhe s"
    and "decryptionContexts s requestId = zero_context"
    and "hashCiphertexts fhe [0, fhe_mul fhe 0 (fhe_inv fhe (fhe_asEuint32 fhe 0))] \<noteq> 0"
  shows "myCallback fhe e s requestId cleartexts prf = Inl StateMismatch
    \<and> after fhe (e, MyCallback requestId cleartexts prf) s = s
    \<and> emitted fhe (e, MyCallback requestId cleartexts prf) s = []"
  using assms(2,3) callback_aggregate_batch_zero [OF assms(1)]
  by (simp add: myCallback_def after_def emitted_def zero_context_def)

theorem unknown_request_is_state_mismatch_witness:
  "reachable fake_fhevm one_submission
   \<and> decryptionContexts one_submission 7 = zero_context
   \<and> hashCiphertexts fake_fhevm
        [0, fhe_mul fake_fhevm 0 (fhe_inv fake_fhevm (fhe_asEuint32 fake_fhevm 0))] = 16436
   \<and> myCallback fake_fhevm (at 500) one_submission 7 cleartexts_5_5 [1] = Inl StateMismatch
   \<and> after fake_fhevm (at 500, MyCallback 7 cleartexts_5_5 [1]) one_submission = one_submission"
proof -
  have c: "decryptionContexts one_submission 7 = zero_context"
    by (simp add: one_submission_def scenario_defs op_defs modifier_defs)
  have h: "hashCiphertexts fake_fhevm
        [0, fhe_mul fake_fhevm 0 (fhe_inv fake_fhevm (fhe_asEuint32 fake_fhevm 0))] = 16436"
    by (simp add: hashCiphertexts_def fake_fhevm_def)
  then have n: "hashCiphertexts fake_fhevm
        [0, fhe_mul fake_fhevm 0 (fhe_inv fake_fhevm (fhe_asEuint32 fake_fhevm 0))] \<noteq> 0"
    by simp
  from unknown_request_is_state_mismatch [OF reachable_one_submission c n]
  show ?thesis using reachable_one_submission c h by simp
qed

subsection \<open>Replay\<close>

text \<open>
  No transaction other than a request that stores a new context under the id clears a
  \<open>processed\<close> flag.
\<close>

lemma processed_kept:
  "\<not> recreates rid tx \<Longrightarrow> processed (decryptionContexts s rid)
   \<Longrightarrow> processed (decryptionContexts (after fhe tx s) rid)"
proof (cases tx)
  case (Pair e c)
  assume "\<not> recreates rid tx" and "processed (decryptionContexts s rid)"
  with Pair show ?thesis
    by (cases c)
      (auto simp: after_def op_defs Let_def
            split: if_splits option.splits sum.splits prod.splits)
qed

lemma flips_processed:
  "processed (decryptionContexts s rid) \<Longrightarrow> \<forall>tx\<in>set txs. \<not> recreates rid tx
   \<Longrightarrow> flips fhe rid s txs = 0"
  by (induction txs arbitrary: s) (simp_all add: processed_kept)

lemma flips_le_1:
  "\<forall>tx\<in>set txs. \<not> recreates rid tx \<Longrightarrow> flips fhe rid s txs \<le> 1"
proof (induction txs arbitrary: s)
  case Nil
  show ?case by simp
next
  case (Cons tx txs)
  show ?case
  proof (cases "processed (decryptionContexts (after fhe tx s) rid)")
    case True
    with Cons.prems have "flips fhe rid (after fhe tx s) txs = 0"
      by (simp add: flips_processed)
    then show ?thesis by simp
  next
    case False
    with Cons show ?thesis by simp
  qed
qed

lemma completed_processed: "processed (decryptionContexts completed 7)"
  by (simp add: completed_def)

lemma pending_not_processed: "\<not> processed (decryptionContexts pending 7)"
  by (simp add: pending_def)

lemma after_pending_callback:
  "after fake_fhevm (at 500, MyCallback 7 cleartexts_5_5 [1]) pending = completed"
  by (simp add: after_def pending_callback)

text \<open>
  Claim C6: when the context of a request id is already processed, a callback with that
  id reverts with ReplayAttempt, whatever the payload and the proof; the storage is
  unchanged and nothing is emitted. Hence, along any sequence of transactions, from any
  storage \<open>s0\<close>, in which no new context is stored under the id, its \<open>processed\<close>
  flag goes from false to true at most once.
\<close>

theorem replay_rejected:
  assumes "processed (decryptionContexts s requestId)"
  shows "myCallback fhe e s requestId cleartexts prf = Inl ReplayAttempt
    \<and> after fhe (e, MyCallback requestId cleartexts prf) s = s
    \<and> emitted fhe (e, MyCallback requestId cleartexts prf) s = []
    \<and> ((\<forall>tx\<in>set txs. \<not> recreates requestId tx) \<longrightarrow> flips fhe requestId s0 txs \<le> 1)"
  using assms flips_le_1 [of txs requestId fhe s0]
  by (simp add: myCallback_def after_def emitted_def)

text \<open>
  The instance: the second callback for the processed context 7 is a replay, and of two
  callbacks run from the pending storage exactly the first flips the flag.
\<close>

theorem replay_rejected_witness:
  "processed (decryptionContexts completed 7)
   \<and> myCallback fake_fhevm (at 600) completed 7 cleartexts_5_5 [1] = Inl ReplayAttempt
   \<and> after fake_fhevm (at 600, MyCallback 7 cleartexts_5_5 [1]) completed = completed
   \<and> emitted fake_fhevm (at 600, MyCallback 7 cleartexts_5_5 [1]) completed = []
   \<and> flips fake_fhevm 7 pending
        [(at 500, MyCallback 7 cleartexts_5_5 [1]), (at 600, MyCallback 7 cleartexts_5_5 [1])] = 1"
proof -
  let ?txs = "[(at 500, MyCallback 7 cleartexts_5_5 [1]), (at 600, MyCallback 7 cleartexts_5_5 [1])]"
  have n: "\<forall>tx\<in>set ?txs. \<not> recreates 7 tx" by simp
  note r = replay_rejected [OF completed_processed, of fake_fhevm "at 600" cleartexts_5_5 "[1]" ?txs pending]
  from r n have le: "flips fake_fhevm 7 pending ?txs \<le> 1" by blast
  have ge: "1 \<le> flips fake_fhevm 7 pending ?txs"
    by (simp add: after_pending_callback pending_not_processed completed_processed)
  from r le ge completed_processed show ?thesis by simp
qed

subsection \<open>Frame of the successful callback\<close>

text \<open>
  Claim C9: when the callback succeeds, the new storage is the old one with the
  \<open>processed\<close> flag of that one context set to true, and the only output is the
  DecryptionCompleted event carrying the decoded total and average. No batch (with its
  \<open>reputationSum\<close>, \<open>submissionCount\<close>, \<open>isOpen\<close>), no ledger entry, no provider
  or cooldown field and no other context is written, and the context keeps its batch id
  and state hash.
\<close>

theorem callback_frame:
  assumes "myCallback fhe e s requestId cleartexts prf = Inr (evs, s')"
  shows "s' = s\<lparr>decryptionContexts := (decryptionContexts s)(requestId :=
                 (decryptionContexts s requestId)\<lparr>processed := True\<rparr>)\<rparr>
    \<and> (\<exists>totalReputation averageReputation.
          evs = [DecryptionCompleted requestId (ctx_batchId (decryptionContexts s requestId))
                   totalReputation averageReputation])
    \<and> batches s' = batches s
    \<and> currentBatchId s' = currentBatchId s
    \<and> submissions s' = submissions s
    \<and> owner s' = owner s
    \<and> isProvider s' = isProvider s
    \<and> lastSubmissionTime s' = lastSubmissionTime s
    \<and> lastDecryptionRequestTime s' = lastDecryptionRequestTime s
    \<and> cooldownSeconds s' = cooldownSeconds s
    \<and> paused s' = paused s
    \<and> (\<forall>r. r \<noteq> requestId \<longrightarrow> decryptionContexts s' r = decryptionContexts s r)
    \<and> ctx_batchId (decryptionContexts s' requestId) = ctx_batchId (decryptionContexts s requestId)
    \<and> stateHash (decryptionContexts s' requestId) = stateHash (decryptionContexts s requestId)
    \<and> \<not> processed (decryptionContexts s requestId)
    \<and> processed (decryptionContexts s' requestId)"
  using assms
  by (auto simp: myCallback_def Let_def split: if_splits prod.splits option.splits)

theorem callback_frame_witness:
  "myCallback fake_fhevm (at 500) pending 7 cleartexts_5_5 [1]
     = Inr ([DecryptionCompleted 7 1 5 5], completed)
   \<and> completed = pending\<lparr>decryptionContexts := (decryptionContexts pending)(7 :=
                 (decryptionContexts pending 7)\<lparr>processed := True\<rparr>)\<rparr>
   \<and> batches completed = batches pending
   \<and> submissions completed = submissions pending
   \<and> \<not> processed (decryptionContexts pending 7)
   \<and> processed (decryptionContexts completed 7)"
  using callback_frame [OF pending_callback] pending_callback by simp

section \<open>Batch closure\<close>

text \<open>
  A closed batch under the pointer stays closed under every transaction that is not a
  successful \<open>openBatch\<close>.
\<close>

lemma current_closed_kept:
  assumes "\<not> isOpen (batches s (currentBatchId s))"
    and "\<not> (snd tx = OpenBatch \<and> \<not> isl (exec fhe (fst tx) (snd tx) s))"
  shows "\<not> isOpen (batches (after fhe tx s) (currentBatchId (after fhe tx s)))"
proof (cases tx)
  case (Pair e c)
  with assms show ?thesis
    by (cases c)
      (auto simp: after_def op_defs Let_def
            split: if_splits option.splits sum.splits prod.splits)
qed

lemma run_current_closed:
  "\<not> isOpen (batches s (currentBatchId s)) \<Longrightarrow> no_successful_open fhe s txs
   \<Longrightarrow> \<not> isOpen (batches (run fhe s txs) (currentBatchId (run fhe s txs)))"
proof (induction txs arbitrary: s)
  case Nil
  then show ?case by simp
next
  case (Cons tx txs)
  from Cons.prems have "\<not> isOpen (batches (after fhe tx s) (currentBatchId (after fhe tx s)))"
    by (intro current_closed_kept) simp_all
  with Cons show ?case by simp
qed

text \<open>After \<open>closeBatch\<close> the pointer is on a batch that was never opened.\<close>

lemma closeBatch_leaves_closed:
  assumes "reachable fhe s" and "closeBatch e s = Inr (evs, s1)"
  shows "\<not> isOpen (batches s1 (currentBatchId s1))"
proof -
  from assms(2) have c: "currentBatchId s1 = currentBatchId s + 1"
    by (auto simp: closeBatch_def split: if_splits option.splits)
  from assms(2) c have "batches s1 (currentBatchId s1) = batches s (currentBatchId s1)"
    by (auto simp: closeBatch_def split: if_splits option.splits)
  moreover have "\<not> isOpen (batches s (currentBatchId s1))"
    using assms(1) c by (intro only_current_open) simp_all
  ultimately show ?thesis by simp
qed

lemma closeBatch_one_submission:
  "closeBatch (at 200) one_submission = Inr ([BatchClosed 1], closed_one)"
  by (simp add: closed_one_def one_submission_def scenario_defs op_defs modifier_defs)

lemma closed_one_intermission:
  "no_successful_open fake_fhevm closed_one intermission"
  "run fake_fhevm closed_one intermission = closed_one\<lparr>cooldownSeconds := 10\<rparr>"
  by (simp_all add: intermission_def closed_one_def one_submission_def scenario_defs
        op_defs modifier_defs)

text \<open>
  Claim C5 as stated: after a successful \<open>closeBatch\<close> a submission by an authorized,
  unpaused, cooldown-clear provider fails with InvalidBatch. The owner closes batch 1 at
  time 200 and submits at time 400, past every gate: the revert is BatchNotOpen, the
  error \<open>submitReputation\<close> raises for a batch that is not open, and not InvalidBatch.
\<close>

theorem closed_batch_submit_not_InvalidBatch:
  "closeBatch (at 200) one_submission = Inr ([BatchClosed 1], closed_one)
   \<and> onlyProvider closed_one (at 400) = None
   \<and> whenNotPaused closed_one = None
   \<and> checkSubmissionCooldown closed_one (at 400) (sender (at 400)) = None
   \<and> submitReputation (at 400) closed_one 6 = Inl BatchNotOpen
   \<and> submitReputation (at 400) closed_one 6 \<noteq> Inl InvalidBatch"
  by (simp add: closed_one_def one_submission_def scenario_defs op_defs modifier_defs)

text \<open>
  Claim C5 as amended: in every state reached by a successful \<open>closeBatch\<close> from a
  reachable state and then by any transactions none of which is a successful
  \<open>openBatch\<close>, every submission by an authorized provider, with the contract not
  paused and the submission cooldown elapsed, reverts with BatchNotOpen; the storage, and
  with it the ledger, is unchanged.
\<close>

theorem closed_batch_rejects_submissions:
  assumes "reachable fhe s"
    and "closeBatch e s = Inr (evs, s1)"
    and "no_successful_open fhe s1 txs"
    and "onlyProvider (run fhe s1 txs) e' = None"
    and "whenNotPaused (run fhe s1 txs) = None"
    and "checkSubmissionCooldown (run fhe s1 txs) e' (sender e') = None"
  shows "submitReputation e' (run fhe s1 txs) c = Inl BatchNotOpen
    \<and> after fhe (e', SubmitReputation c) (run fhe s1 txs) = run fhe s1 txs"
proof -
  from assms(1,2) have "\<not> isOpen (batches s1 (currentBatchId s1))"
    by (rule closeBatch_leaves_closed)
  with assms(3) have "\<not> isOpen (batches (run fhe s1 txs) (currentBatchId (run fhe s1 txs)))"
    by (intro run_current_closed)
  with assms(4,5,6) show ?thesis
    by (simp add: submitReputation_def after_def)
qed

theorem closed_batch_rejects_submissions_witness:
  "reachable fake_fhevm one_submission
   \<and> closeBatch (at 200) one_submission = Inr ([BatchClosed 1], closed_one)
   \<and> no_successful_open fake_fhevm closed_one intermission
   \<and> onlyProvider (run fake_fhevm closed_one intermission) (at 400) = None
   \<and> whenNotPaused (run fake_fhevm closed_one intermission) = None
   \<and> checkSubmissionCooldown (run fake_fhevm closed_one intermission) (at 400) (sender (at 400)) = None
   \<and> submitReputation (at 400) (run fake_fhevm closed_one intermission) 6 = Inl BatchNotOpen
   \<and> after fake_fhevm (at 400, SubmitReputation 6) (run fake_fhevm closed_one intermission)
        = run fake_fhevm closed_one intermission"
proof -
  have g: "onlyProvider (run fake_fhevm closed_one intermission) (at 400) = None"
    "whenNotPaused (run fake_fhevm closed_one intermission) = None"
    "checkSubmissionCooldown (run fake_fhevm closed_one intermission) (at 400) (sender (at 400)) = None"
    unfolding closed_one_intermission(2)
    by (simp_all add: closed_one_def one_submission_def scenario_defs op_defs modifier_defs)
  from closed_batch_rejects_submissions
         [OF reachable_one_submission closeBatch_one_submission closed_one_intermission(1) g, of 6]
  show ?thesis
    using g reachable_one_submission closeBatch_one_submission closed_one_intermission(1)
    by simp
qed

section \<open>Cooldown\<close>

text \<open>
  Claim C8: let the deadline \<open>lastSubmissionTime + cooldownSeconds\<close> of a provider be
  a \<open>uint256\<close> (the checked addition of the modifier panics otherwise). A submission
  at the deadline passes the cooldown check, and succeeds when the current batch is open,
  the handle is initialised and the counter can be incremented; a submission one second
  earlier reverts with CooldownActive. The same holds for disclosure requests with the
  separately recorded \<open>lastDecryptionRequestTime\<close>: at the deadline the check passes
  and the request does not fail with CooldownActive, one second earlier it does.
\<close>

theorem cooldown_boundary:
  assumes "lastSubmissionTime s p + cooldownSeconds s \<le> MAX_UINT256"
    and "lastDecryptionRequestTime s p + cooldownSeconds s \<le> MAX_UINT256"
    and "isProvider s p" and "\<not> paused s"
  shows
   "checkSubmissionCooldown s
        \<lparr>sender = p, timestamp = lastSubmissionTime s p + cooldownSeconds s\<rparr> p = None
    \<and> (isOpen (batches s (currentBatchId s)) \<and> isInitialized c
         \<and> submissionCount (batches s (currentBatchId s)) < MAX_UINT256 \<longrightarrow>
        (\<exists>evs s'. submitReputation
             \<lparr>sender = p, timestamp = lastSubmissionTime s p + cooldownSeconds s\<rparr> s c
               = Inr (evs, s')
           \<and> submissions s' = submissions s @
               [\<lparr>encryptedReputation = c, provider = p, sub_batchId = currentBatchId s\<rparr>]
           \<and> lastSubmissionTime s' p = lastSubmissionTime s p + cooldownSeconds s))
    \<and> (0 < lastSubmissionTime s p + cooldownSeconds s \<longrightarrow>
        submitReputation
          \<lparr>sender = p, timestamp = lastSubmissionTime s p + cooldownSeconds s - 1\<rparr> s c
          = Inl CooldownActive)
    \<and> checkDecryptionCooldown s
        \<lparr>sender = p, timestamp = lastDecryptionRequestTime s p + cooldownSeconds s\<rparr> p = None
    \<and> requestBatchDecryption fhe
        \<lparr>sender = p, timestamp = lastDecryptionRequestTime s p + cooldownSeconds s\<rparr> s b rid
          \<noteq> Inl CooldownActive
    \<and> (0 < lastDecryptionRequestTime s p + cooldownSeconds s \<longrightarrow>
        requestBatchDecryption fhe
          \<lparr>sender = p, timestamp = lastDecryptionRequestTime s p + cooldownSeconds s - 1\<rparr> s b rid
          = Inl CooldownActive)"
proof -
  have sub_pass: "checkSubmissionCooldown s
        \<lparr>sender = p, timestamp = lastSubmissionTime s p + cooldownSeconds s\<rparr> p = None"
    using assms(1) by (simp add: checkSubmissionCooldown_def)
  have dec_pass: "checkDecryptionCooldown s
        \<lparr>sender = p, timestamp = lastDecryptionRequestTime s p + cooldownSeconds s\<rparr> p = None"
    using assms(2) by (simp add: checkDecryptionCooldown_def)
  have sub_ok: "isOpen (batches s (currentBatchId s)) \<and> isInitialized c
         \<and> submissionCount (batches s (currentBatchId s)) < MAX_UINT256 \<longrightarrow>
        (\<exists>evs s'. submitReputation
             \<lparr>sender = p, timestamp = lastSubmissionTime s p + cooldownSeconds s\<rparr> s c
               = Inr (evs, s')
           \<and> submissions s' = submissions s @
               [\<lparr>encryptedReputation = c, provider = p, sub_batchId = currentBatchId s\<rparr>]
           \<and> lastSubmissionTime s' p = lastSubmissionTime s p + cooldownSeconds s)"
    using assms(3,4) sub_pass
    by (simp add: submitReputation_def onlyProvider_def whenNotPaused_def Let_def)
  have sub_early: "0 < lastSubmissionTime s p + cooldownSeconds s \<longrightarrow>
        submitReputation
          \<lparr>sender = p, timestamp = lastSubmissionTime s p + cooldownSeconds s - 1\<rparr> s c
          = Inl CooldownActive"
    using assms(1,3,4)
    by (simp add: submitReputation_def onlyProvider_def whenNotPaused_def
          checkSubmissionCooldown_def)
  have dec_ok: "requestBatchDecryption fhe
        \<lparr>sender = p, timestamp = lastDecryptionRequestTime s p + cooldownSeconds s\<rparr> s b rid
          \<noteq> Inl CooldownActive"
    using assms(3,4) dec_pass
    by (simp add: requestBatchDecryption_def onlyProvider_def whenNotPaused_def
          request_aggregate_def Let_def split: prod.splits)
  have dec_early: "0 < lastDecryptionRequestTime s p + cooldownSeconds s \<longrightarrow>
        requestBatchDecryption fhe
          \<lparr>sender = p, timestamp = lastDecryptionRequestTime s p + cooldownSeconds s - 1\<rparr> s b rid
          = Inl CooldownActive"
    using assms(2,3,4)
    by (simp add: requestBatchDecryption_def onlyProvider_def whenNotPaused_def
          checkDecryptionCooldown_def)
  from sub_pass sub_ok sub_early dec_pass dec_ok dec_early show ?thesis by blast
qed

text \<open>
  The instance: the owner submitted at time 100 with a cooldown of 60, so the submission
  deadline is 160; no request was made, so the request deadline is 60.
\<close>

theorem cooldown_boundary_witness:
  "lastSubmissionTime one_submission 1 + cooldownSeconds one_submission = 160
   \<and> lastDecryptionRequestTime one_submission 1 + cooldownSeconds one_submission = 60
   \<and> 160 \<le> MAX_UINT256
   \<and> isProvider one_submission 1 \<and> \<not> paused one_submission
   \<and> isOpen (batches one_submission (currentBatchId one_submission))
   \<and> \<not> isl (submitReputation \<lparr>sender = 1, timestamp = 160\<rparr> one_submission 5)
   \<and> submitReputation \<lparr>sender = 1, timestamp = 159\<rparr> one_submission 5 = Inl CooldownActive
   \<and> requestBatchDecryption fake_fhevm \<lparr>sender = 1, timestamp = 60\<rparr> one_submission 1 7
        \<noteq> Inl CooldownActive
   \<and> requestBatchDecryption fake_fhevm \<lparr>sender = 1, timestamp = 59\<rparr> one_submission 1 7
        = Inl CooldownActive"
proof -
  have h: "lastSubmissionTime one_submission 1 + cooldownSeconds one_submission \<le> MAX_UINT256"
    "lastDecryptionRequestTime one_submission 1 + cooldownSeconds one_submission \<le> MAX_UINT256"
    "isProvider one_submission 1" "\<not> paused one_submission"
    by (simp_all add: one_submission_fields MAX_UINT256_def)
  have o: "isOpen (batches one_submission (currentBatchId one_submission))"
    "isInitialized (5 :: euint32)"
    "submissionCount (batches one_submission (currentBatchId one_submission)) < MAX_UINT256"
    using one_submission_fields by (simp_all add: MAX_UINT256_def isInitialized_def)
  from cooldown_boundary [OF h, of 5 fake_fhevm 1 7] h o show ?thesis
    by (auto simp: one_submission_fields MAX_UINT256_def)
qed

section \<open>Construction\<close>

text \<open>
  Claim C10: the constructor makes the deployer the owner and an authorized provider and
  emits ProviderAdded for it. So, with no \<open>addProvider\<close> call, the owner passes the
  provider check: neither a submission nor a disclosure request of the owner in the
  initial state is rejected with NotProvider, and once the owner has opened the first
  batch, the owner's submission (cooldown of 60 seconds from time 0 elapsed, handle
  initialised) succeeds and is the first ledger entry.
\<close>

theorem deployer_is_owner_and_provider:
  assumes "sender e = sender e0" and "60 \<le> timestamp e" and "isInitialized c"
  shows "fst (constructor e0) = [ProviderAdded (sender e0)]
    \<and> owner (snd (constructor e0)) = sender e0
    \<and> isProvider (snd (constructor e0)) (sender e0)
    \<and> onlyProvider (snd (constructor e0)) e = None
    \<and> submitReputation e (snd (constructor e0)) c \<noteq> Inl NotProvider
    \<and> requestBatchDecryption fhe e (snd (constructor e0)) b rid \<noteq> Inl NotProvider
    \<and> (\<exists>evs s1 evs' s2.
          openBatch e (snd (constructor e0)) = Inr (evs, s1)
        \<and> submitReputation e s1 c = Inr (evs', s2)
        \<and> submissions s2 = [\<lparr>encryptedReputation = c, provider = sender e0, sub_batchId = 1\<rparr>])"
  using assms
  by (simp add: constructor_def op_defs modifier_defs MAX_UINT256_def zero_batch_def)

theorem deployer_is_owner_and_provider_witness:
  "sender (at 100) = sender (at 0) \<and> 60 \<le> timestamp (at 100) \<and> isInitialized (5 :: euint32)
   \<and> fst (constructor (at 0)) = [ProviderAdded 1]
   \<and> owner deployed = 1
   \<and> isProvider deployed 1
   \<and> onlyProvider deployed (at 100) = None
   \<and> submitReputation (at 100) deployed 5 = Inl BatchNotOpen
   \<and> requestBatchDecryption fake_fhevm (at 100) deployed 1 7 = Inl InvalidBatch
   \<and> submissions one_submission = [\<lparr>encryptedReputation = 5, provider = 1, sub_batchId = 1\<rparr>]"
proof -
  have h: "sender (at 100) = sender (at 0)" "60 \<le> timestamp (at 100)" "isInitialized (5 :: euint32)"
    by (simp_all add: at_def isInitialized_def)
  from deployer_is_owner_and_provider [OF h, of fake_fhevm 1 7] h show ?thesis
    by (simp add: one_submission_def scenario_defs op_defs modifier_defs)
qed

end
